theory Spec2Isabelle
  imports Complex_Main
begin

unbundle bit_operations_syntax

section \<open>JavaScript values\<close>

text \<open>
  The values the pipeline handles are what the HTTP client decodes from JSON: \<open>null\<close>,
  booleans, numbers, strings, arrays and objects. A JavaScript number is modelled as an
  exact rational (\<open>rat\<close>): binary floating-point rounding is not modelled. An object is
  the list of its own properties in enumeration order (the order \<open>Object.entries\<close>
  walks them), with distinct keys. The value \<open>undefined\<close> of a property read is
  \<open>None\<close>.
\<close>

datatype jsval =
    JNull
  | JBool bool
  | JNum rat
  | JStr string
  | JArr "jsval list"
  | JObj "(string \<times> jsval) list"

type_synonym obj = "(string \<times> jsval) list"

text \<open>Truthiness: \<open>null\<close>, \<open>false\<close>, \<open>0\<close> and the empty string are falsy.\<close>

fun truthy :: "jsval \<Rightarrow> bool" where
  "truthy JNull = False"
| "truthy (JBool b) = b"
| "truthy (JNum n) = (n \<noteq> 0)"
| "truthy (JStr s) = (s \<noteq> [])"
| "truthy (JArr xs) = True"
| "truthy (JObj kvs) = True"

text \<open>\<open>typeof v === 'object'\<close> holds of \<open>null\<close>, arrays and objects.\<close>

fun typeof_object :: "jsval \<Rightarrow> bool" where
  "typeof_object JNull = True"
| "typeof_object (JArr xs) = True"
| "typeof_object (JObj kvs) = True"
| "typeof_object v = False"

fun isArray :: "jsval \<Rightarrow> bool" where
  "isArray (JArr xs) = True"
| "isArray v = False"

text \<open>
  Reading a named property \<open>v.key\<close> of a value that is not \<open>null\<close>. The keys the
  program reads (\<open>results\<close>, \<open>props\<close>, \<open>totalPages\<close>, \<open>units\<close>, \<open>price\<close>, \<open>beds\<close>,
  \<open>bathrooms\<close>) are own properties of plain objects only, so the read is
  \<open>undefined\<close> on every other value. Reading a property of \<open>null\<close> throws; the
  callers below test for \<open>null\<close> before they read.
\<close>

fun getProp :: "jsval \<Rightarrow> string \<Rightarrow> jsval option" where
  "getProp (JObj kvs) key = map_of kvs key"
| "getProp v key = None"

text \<open>Decimal rendering of an index, as template strings and array keys render it.\<close>

fun show_nat :: "nat \<Rightarrow> string" where
  "show_nat n =
     (if n < 10 then [''0123456789'' ! n]
      else show_nat (n div 10) @ [''0123456789'' ! (n mod 10)])"

declare show_nat.simps [simp del]

text \<open>\<open>Math.round\<close>: the nearest integer, a tie going up.\<close>

definition Math_round :: "rat \<Rightarrow> int" where
  "Math_round x = \<lfloor>x + 1 / 2\<rfloor>"

text \<open>\<open>Array.prototype.join\<close>.\<close>

fun js_join :: "string \<Rightarrow> string list \<Rightarrow> string" where
  "js_join sep [] = []"
| "js_join sep [x] = x"
| "js_join sep (x # y # zs) = x @ sep @ js_join sep (y # zs)"

text \<open>
  \<open>String.prototype.toUpperCase\<close> on the ASCII letters, which is all a hexadecimal
  digest holds.
\<close>

definition upper_char :: "char \<Rightarrow> char" where
  "upper_char c =
     (case map_of (zip ''abcdefghijklmnopqrstuvwxyz'' ''ABCDEFGHIJKLMNOPQRSTUVWXYZ'') c of
        Some C \<Rightarrow> C
      | None \<Rightarrow> c)"

definition toUpperCase :: "string \<Rightarrow> string" where
  "toUpperCase s = map upper_char s"


section \<open>Types of the listing pipeline (types.ts)\<close>

text \<open>
  A field declared \<open>.nullable().optional()\<close> holds \<open>undefined\<close>, \<open>null\<close> or a value;
  a field declared \<open>.optional()\<close> holds \<open>undefined\<close> (\<open>None\<close>) or a value.
\<close>

datatype 'a nullable_optional = Undefined | Null | Value 'a

record ZillowUnit =
  price_u :: "rat option"
  beds_u :: "rat option"
  bathrooms_u :: "rat option"

record ZillowProperty =
  longitude :: "rat nullable_optional"
  latitude :: "rat nullable_optional"
  detailUrl :: string
  price :: "rat nullable_optional"
  bedrooms :: "rat nullable_optional"
  bathrooms :: "rat nullable_optional"
  livingArea :: "rat nullable_optional"
  propertyType :: "string nullable_optional"
  address :: "string nullable_optional"
  units :: "ZillowUnit list nullable_optional"

text \<open>
  The storage record (\<open>NashvilleRental\<close> without its timestamps), with the columns
  \<open>propertyToRecord\<close> fills. Columns whose names the property also uses carry the
  suffix \<open>_r\<close>. A column is a value or \<open>null\<close> (\<open>None\<close>).
\<close>

record NashvilleRental =
  record_id :: string
  detail_url :: string
  longitude_r :: "rat option"
  latitude_r :: "rat option"
  address_r :: "string option"
  price_r :: "int option"
  bedrooms_r :: "rat option"
  bathrooms_r :: "rat option"
  living_area :: "rat option"
  property_type :: "string option"
  units_r :: "ZillowUnit list option"
  ingestion_date :: string


section \<open>SHA-256\<close>

text \<open>
  The digest the platform's \<open>crypto\<close> module computes for
  \<open>createHash('sha256')\<close>, as FIPS 180-4 defines it. It instantiates the digest
  parameter of \<open>generateRecordId\<close>.
\<close>

text \<open>The round constants and the initial hash value.\<close>

definition sha_K :: "nat list" where
  "sha_K =
     [1116352408, 1899447441, 3049323471, 3921009573,
      961987163, 1508970993, 2453635748, 2870763221,
      3624381080, 310598401, 607225278, 1426881987,
      1925078388, 2162078206, 2614888103, 3248222580,
      3835390401, 4022224774, 264347078, 604807628,
      770255983, 1249150122, 1555081692, 1996064986,
      2554220882, 2821834349, 2952996808, 3210313671,
      3336571891, 3584528711, 113926993, 338241895,
      666307205, 773529912, 1294757372, 1396182291,
      1695183700, 1986661051, 2177026350, 2456956037,
      2730485921, 2820302411, 3259730800, 3345764771,
      3516065817, 3600352804, 4094571909, 275423344,
      430227734, 506948616, 659060556, 883997877,
      958139571, 1322822218, 1537002063, 1747873779,
      1955562222, 2024104815, 2227730452, 2361852424,
      2428436474, 2756734187, 3204031479, 3329325298]"

definition sha_H0 :: "nat list" where
  "sha_H0 =
     [1779033703, 3144134277, 1013904242, 2773480762,
      1359893119, 2600822924, 528734635, 1541459225]"

text \<open>
  Words of 32 bits are natural numbers below \<open>2 ^ 32\<close>: addition modulo \<open>2 ^ 32\<close>,
  rotation and shift to the right, complement, and the six logical functions.
\<close>

definition add32 :: "nat \<Rightarrow> nat \<Rightarrow> nat" where
  "add32 a b = (a + b) mod 4294967296"

definition rotr :: "nat \<Rightarrow> nat \<Rightarrow> nat" where
  "rotr n x = x div 2 ^ n + (x mod 2 ^ n) * 2 ^ (32 - n)"

definition shr :: "nat \<Rightarrow> nat \<Rightarrow> nat" where
  "shr n x = x div 2 ^ n"

definition not32 :: "nat \<Rightarrow> nat" where
  "not32 x = 4294967295 - x"

definition choose32 :: "nat \<Rightarrow> nat \<Rightarrow> nat \<Rightarrow> nat" where
  "choose32 e f g = (e AND f) XOR (not32 e AND g)"

definition majority32 :: "nat \<Rightarrow> nat \<Rightarrow> nat \<Rightarrow> nat" where
  "majority32 a b c = (a AND b) XOR (a AND c) XOR (b AND c)"

definition Sig0 :: "nat \<Rightarrow> nat" where
  "Sig0 x = rotr 2 x XOR rotr 13 x XOR rotr 22 x"

definition Sig1 :: "nat \<Rightarrow> nat" where
  "Sig1 x = rotr 6 x XOR rotr 11 x XOR rotr 25 x"

definition ssig0 :: "nat \<Rightarrow> nat" where
  "ssig0 x = rotr 7 x XOR rotr 18 x XOR shr 3 x"

definition ssig1 :: "nat \<Rightarrow> nat" where
  "ssig1 x = rotr 17 x XOR rotr 19 x XOR shr 10 x"

text \<open>
  The message schedule: the words 16 to 63 of a block, each computed from the sixteen
  words before it.
\<close>

fun sha_slide :: "nat list \<Rightarrow> nat \<Rightarrow> nat list" where
  "sha_slide win w = tl win @ [w]"

fun sha_schedule :: "nat list \<Rightarrow> nat list \<Rightarrow> nat list" where
  "sha_schedule [] win = []"
| "sha_schedule (t # ts) win =
     add32 (add32 (add32 (ssig1 (win ! 14)) (win ! 9)) (ssig0 (win ! 1))) (win ! 0)
       # sha_schedule ts
           (sha_slide win (add32 (add32 (add32 (ssig1 (win ! 14)) (win ! 9)) (ssig0 (win ! 1))) (win ! 0)))"

text \<open>One round on the eight working variables, the 64 rounds, and the block function.\<close>

fun rotate_state :: "nat \<Rightarrow> nat \<Rightarrow> nat list \<Rightarrow> nat list" where
  "rotate_state t1 t2 [a, b, c, d, e, f, g, h] = [add32 t1 t2, a, b, c, add32 d t1, e, f, g]"
| "rotate_state t1 t2 st = st"

fun sha_round :: "nat \<times> nat \<Rightarrow> nat list \<Rightarrow> nat list" where
  "sha_round (k, w) [a, b, c, d, e, f, g, h] =
     rotate_state (add32 (add32 (add32 (add32 h (Sig1 e)) (choose32 e f g)) k) w)
       (add32 (Sig0 a) (majority32 a b c)) [a, b, c, d, e, f, g, h]"
| "sha_round kw st = st"

fun sha_rounds :: "(nat \<times> nat) list \<Rightarrow> nat list \<Rightarrow> nat list" where
  "sha_rounds [] st = st"
| "sha_rounds (kw # kws) st = sha_rounds kws (sha_round kw st)"

definition sha_compress :: "nat list \<Rightarrow> nat list \<Rightarrow> nat list" where
  "sha_compress st ws = map2 add32 st (sha_rounds (zip sha_K (ws @ sha_schedule [16..<64] ws)) st)"

text \<open>
  Big-endian words and bytes, the padding of the message (a bit 1, zeros, and the length
  in bits on 64 bits), the chain over the blocks, and the digest in lowercase
  hexadecimal. The text is hashed as its bytes (\<open>update(seed, 'utf8')\<close>).
\<close>

fun be_words :: "nat list \<Rightarrow> nat list" where
  "be_words (a # b # c # d # rest) = (((a * 256 + b) * 256 + c) * 256 + d) # be_words rest"
| "be_words bs = []"

definition be_bytes4 :: "nat \<Rightarrow> nat list" where
  "be_bytes4 x = [x div 16777216 mod 256, x div 65536 mod 256, x div 256 mod 256, x mod 256]"

definition be_bytes8 :: "nat \<Rightarrow> nat list" where
  "be_bytes8 x = be_bytes4 (x div 4294967296) @ be_bytes4 (x mod 4294967296)"

definition sha_pad :: "nat list \<Rightarrow> nat list" where
  "sha_pad bs =
     bs @ [128] @ replicate ((119 - length bs mod 64) mod 64) 0 @ be_bytes8 (8 * length bs)"

fun sha_blocks :: "nat list \<Rightarrow> nat list \<Rightarrow> nat list" where
  "sha_blocks ws st = (if ws = [] then st else sha_blocks (drop 16 ws) (sha_compress st (take 16 ws)))"

declare sha_blocks.simps [simp del]

definition hex_digit :: "nat \<Rightarrow> char" where
  "hex_digit n = ''0123456789abcdef'' ! n"

definition hex_byte :: "nat \<Rightarrow> string" where
  "hex_byte b = [hex_digit (b div 16), hex_digit (b mod 16)]"

definition sha256_hex :: "string \<Rightarrow> string" where
  "sha256_hex s =
     concat (map hex_byte (concat (map be_bytes4 (sha_blocks (be_words (sha_pad (map of_char s))) sha_H0))))"


section \<open>Persistence layer (db/migrator.ts)\<close>

definition PRIMARY_KEY_SOURCE_COLUMNS :: "string list" where
  "PRIMARY_KEY_SOURCE_COLUMNS = [''detail_url'']"

text \<open>
  \<open>generateRecordId\<close>. The digest \<open>createHash('sha256').update(seed, 'utf8').digest('hex')\<close>
  is the parameter \<open>digest_hex\<close>, which \<open>sha256_hex\<close> instantiates.
  \<open>property.detailUrl || ''\<close> is the URL itself, the empty string being the only falsy
  string.
\<close>

definition generateRecordId :: "(string \<Rightarrow> string) \<Rightarrow> ZillowProperty \<Rightarrow> string" where
  "generateRecordId digest_hex property =
     (let seedParts =
            map (\<lambda>col. if col = ''detail_url''
                        then (if detailUrl property \<noteq> [] then detailUrl property else [])
                        else [])
              PRIMARY_KEY_SOURCE_COLUMNS;
          seed = js_join ''__||__'' seedParts;
          hash = digest_hex seed
      in toUpperCase hash)"

text \<open>\<open>x ?? null\<close>.\<close>

fun or_null :: "'a nullable_optional \<Rightarrow> 'a option" where
  "or_null Undefined = None"
| "or_null Null = None"
| "or_null (Value x) = Some x"

text \<open>
  \<open>propertyToRecord\<close>. The price test \<open>property.price ? ... : null\<close> is a truthiness
  test: \<open>undefined\<close>, \<open>null\<close> and the number \<open>0\<close> all take the \<open>null\<close> branch.
\<close>

definition propertyToRecord ::
    "(string \<Rightarrow> string) \<Rightarrow> ZillowProperty \<Rightarrow> string \<Rightarrow> NashvilleRental" where
  "propertyToRecord digest_hex property ingestionDate =
     (let recordId = generateRecordId digest_hex property;
          priceInCents =
            (case price property of
               Value p \<Rightarrow> if p \<noteq> 0 then Some (Math_round (p * 100)) else None
             | Null \<Rightarrow> None
             | Undefined \<Rightarrow> None)
      in \<lparr> record_id = recordId,
           detail_url = detailUrl property,
           longitude_r = or_null (longitude property),
           latitude_r = or_null (latitude property),
           address_r = or_null (address property),
           price_r = priceInCents,
           bedrooms_r = or_null (bedrooms property),
           bathrooms_r = or_null (bathrooms property),
           living_area = or_null (livingArea property),
           property_type = or_null (propertyType property),
           units_r = or_null (units property),
           ingestion_date = ingestionDate \<rparr>)"

text \<open>
  A JavaScript \<open>Map\<close> keeps its entries in the order their keys were first inserted:
  \<open>set\<close> on a key that is present replaces the value in place, \<open>set\<close> on a new key
  appends the entry; \<open>values()\<close> walks the entries in that order.
\<close>

fun Map_set :: "('k \<times> 'v) list \<Rightarrow> 'k \<Rightarrow> 'v \<Rightarrow> ('k \<times> 'v) list" where
  "Map_set [] k v = [(k, v)]"
| "Map_set ((k', v') # m) k v =
     (if k' = k then (k, v) # m else (k', v') # Map_set m k v)"

definition Map_values :: "('k \<times> 'v) list \<Rightarrow> 'v list" where
  "Map_values m = map snd m"

text \<open>\<open>deduplicateByDetailUrl\<close>: the loop over the records, then the map's values.\<close>

fun dedup_loop ::
    "NashvilleRental list \<Rightarrow> (string \<times> NashvilleRental) list \<Rightarrow> (string \<times> NashvilleRental) list" where
  "dedup_loop [] seen = seen"
| "dedup_loop (record # records) seen =
     dedup_loop records (Map_set seen (detail_url record) record)"

definition deduplicateByDetailUrl :: "NashvilleRental list \<Rightarrow> NashvilleRental list" where
  "deduplicateByDetailUrl records = Map_values (dedup_loop records [])"

text \<open>
  What the deduplication is compared with: the distinct elements of a list in the order
  of their first occurrence, and the last record of a list that carries a given URL.
\<close>

fun first_seen :: "'a list \<Rightarrow> 'a list" where
  "first_seen [] = []"
| "first_seen (x # xs) = x # removeAll x (first_seen xs)"

fun last_with_url :: "string \<Rightarrow> NashvilleRental list \<Rightarrow> NashvilleRental option" where
  "last_with_url u [] = None"
| "last_with_url u (r # rs) =
     (case last_with_url u rs of
        Some x \<Rightarrow> Some x
      | None \<Rightarrow> if detail_url r = u then Some r else None)"


section \<open>Paginated fetch client (zillow/fetcher.ts)\<close>

text \<open>
  What one \<open>client.get\<close> call does: it resolves with the response, whose \<open>data\<close> the
  caller returns; or it rejects with an axios error, which carries the status and data
  of the HTTP response when there was one; or it rejects with something else.
\<close>

datatype http_result =
    Response jsval
  | AxiosFailure "(nat \<times> jsval) option"
  | OtherFailure

text \<open>
  The error classes of errors.ts, each with the response data it is built from (the
  generic error also with the status). The message texts are not modelled.
  \<open>TypeError\<close> is the runtime's error on \<open>Object.entries(null)\<close> and on reading a
  property of \<open>null\<close>.
\<close>

datatype error =
    ZillowAPIError "nat option" "jsval option"
  | RateLimitError "jsval option"
  | AuthenticationError "jsval option"
  | NonAxiosError
  | TypeError

text \<open>
  The observable steps of a run, in order: a request sent upstream with its parameters,
  a \<open>sleep\<close> of so many milliseconds, a batch handed to the consumer of the generator.
  The upstream service is a function of the number of requests it has already received
  and of the request's parameters.
\<close>

datatype event = Request obj | Sleep rat | Yield "jsval list"

type_synonym server = "nat \<Rightarrow> obj \<Rightarrow> http_result"

fun requests :: "event list \<Rightarrow> obj list" where
  "requests [] = []"
| "requests (Request rp # tr) = rp # requests tr"
| "requests (e # tr) = requests tr"

fun sleeps :: "event list \<Rightarrow> rat list" where
  "sleeps [] = []"
| "sleeps (Sleep ms # tr) = ms # sleeps tr"
| "sleeps (e # tr) = sleeps tr"

fun yields :: "event list \<Rightarrow> jsval list list" where
  "yields [] = []"
| "yields (Yield batch # tr) = batch # yields tr"
| "yields (e # tr) = yields tr"

definition DEFAULT_RETRIES :: rat where
  "DEFAULT_RETRIES = 4"



text \<open>\<open>safePageNumber\<close>: \<open>Math.max(1, Math.floor(page))\<close>.\<close>

definition safePageNumber :: "rat \<Rightarrow> rat" where
  "safePageNumber page = max 1 (of_int \<lfloor>page\<rfloor>)"

text \<open>The object \<open>{ ...ob, key: v }\<close>.\<close>

definition obj_set :: "obj \<Rightarrow> string \<Rightarrow> jsval \<Rightarrow> obj" where
  "obj_set ob key v = Map_set ob key v"

text \<open>
  The retry loop of \<open>fetchPage\<close>, from attempt \<open>attempt\<close> on. \<open>status\<close> is
  \<open>axiosError.response?.status\<close> and \<open>data\<close> is \<open>axiosError.response?.data\<close>.
  Falling out of the loop returns \<open>null\<close>.
\<close>

function fetch_attempts ::
    "server \<Rightarrow> obj \<Rightarrow> rat \<Rightarrow> rat \<Rightarrow> nat \<Rightarrow> event list \<Rightarrow> (error + jsval) \<times> event list" where
  "fetch_attempts srv requestParams retries cooldown attempt tr =
     (if of_nat attempt \<le> retries then
        (let tr1 = tr @ [Request requestParams] in
         case srv (length (requests tr)) requestParams of
           Response data \<Rightarrow> (Inr data, tr1)
         | OtherFailure \<Rightarrow> (Inl NonAxiosError, tr1)
         | AxiosFailure response \<Rightarrow>
             (let status = map_option fst response; data = map_option snd response in
              if status = Some 404 then (Inr (JObj [(''results'', JArr [])]), tr1)
              else if status = Some 401 \<or> status = Some 403 then
                (Inl (AuthenticationError data), tr1)
              else if status = Some 429 then
                (if of_nat attempt < retries then
                   fetch_attempts srv requestParams retries cooldown (attempt + 1)
                     (tr1 @ [Sleep (cooldown * of_nat attempt * 1000)])
                 else (Inl (RateLimitError data), tr1))
              else if of_nat attempt < retries then
                fetch_attempts srv requestParams retries cooldown (attempt + 1)
                  (tr1 @ [Sleep (cooldown * of_nat attempt * 1000)])
              else (Inl (ZillowAPIError status data), tr1)))
      else (Inr JNull, tr))"
  by pat_completeness auto
termination
proof (relation "measure (\<lambda>(srv, rp, retries, cooldown, attempt, tr). nat \<lceil>retries\<rceil> - attempt)",
       goal_cases)
  case 1
  show ?case by simp
next
  case (2 srv requestParams retries cooldown attempt tr)
  from \<open>of_nat attempt < retries\<close> have "int attempt < \<lceil>retries\<rceil>"
    by (simp add: less_ceiling_iff)
  then show ?case by simp
next
  case (3 srv requestParams retries cooldown attempt tr)
  from \<open>of_nat attempt < retries\<close> have "int attempt < \<lceil>retries\<rceil>"
    by (simp add: less_ceiling_iff)
  then show ?case by simp
qed

declare fetch_attempts.simps [simp del]

text \<open>
  \<open>fetchPage\<close>: the request parameters \<open>{ ...params, page: safePageNumber(page) }\<close>,
  then the loop from attempt 1.
\<close>

definition requestParams_of :: "obj \<Rightarrow> rat \<Rightarrow> obj" where
  "requestParams_of params page = obj_set params ''page'' (JNum (safePageNumber page))"

definition fetchPage ::
    "server \<Rightarrow> obj \<Rightarrow> rat \<Rightarrow> rat \<Rightarrow> rat \<Rightarrow> event list \<Rightarrow> (error + jsval) \<times> event list" where
  "fetchPage srv params page retries cooldown tr =
     (let requestParams = requestParams_of params page
      in fetch_attempts srv requestParams retries cooldown 1 tr)"

text \<open>\<open>extractResults\<close>.\<close>

definition extractResults :: "jsval \<Rightarrow> jsval list" where
  "extractResults payload =
     (if \<not> truthy payload then []
      else case getProp payload ''results'' of
             Some (JArr xs) \<Rightarrow> xs
           | _ \<Rightarrow>
             (case getProp payload ''props'' of
                Some (JArr xs) \<Rightarrow> xs
              | _ \<Rightarrow> (case payload of JArr xs \<Rightarrow> xs | _ \<Rightarrow> [])))"

text \<open>
  \<open>page >= v\<close> for a number \<open>page\<close>. The response type declares \<open>totalPages\<close> a number.
  \<open>true\<close> compares as 1, \<open>false\<close> and \<open>null\<close> as 0, a plain object as NaN (never
  reached). The runtime's conversion of a string or an array to a number is not
  modelled: the comparison is false there, and the theorems on the total-page count
  are stated for payloads whose \<open>totalPages\<close> is absent or a number.
\<close>

fun js_ge :: "rat \<Rightarrow> jsval \<Rightarrow> bool" where
  "js_ge page (JNum n) = (page \<ge> n)"
| "js_ge page (JBool b) = (page \<ge> (if b then 1 else 0))"
| "js_ge page JNull = (page \<ge> 0)"
| "js_ge page v = False"

text \<open>\<open>payload.totalPages && page >= payload.totalPages\<close>.\<close>

definition lastPageReached :: "nat \<Rightarrow> jsval \<Rightarrow> bool" where
  "lastPageReached page payload =
     (case getProp payload ''totalPages'' of
        None \<Rightarrow> False
      | Some v \<Rightarrow> truthy v \<and> js_ge (of_nat page) v)"





section \<open>Record normaliser (zillow/fetcher.ts, zillow/types.ts)\<close>

text \<open>
  The object under construction in \<open>flattenMapping\<close> and \<open>recordsToProperties\<close> is
  written by key and read by key only, so it is a finite map: \<open>flattened[k] = v\<close> is
  a map update and \<open>Object.assign(flattened, other)\<close> is \<open>flattened ++ other\<close>.
\<close>

type_synonym flat = "string \<rightharpoonup> jsval"

text \<open>\<open>prefix ? `${prefix}__${key}` : key\<close>.\<close>

definition newKey_of :: "string \<Rightarrow> string \<Rightarrow> string" where
  "newKey_of prefix key = (if prefix \<noteq> [] then prefix @ ''__'' @ key else key)"

text \<open>
  The loop of \<open>flattenMapping\<close> over the entries of \<open>obj\<close>, with the object built so
  far. The test \<open>value && typeof value === 'object' && !Array.isArray(value)\<close> holds
  of the plain objects exactly (lemma \<open>mapping_test\<close> below), which is the second
  equation; every other value takes the third.
\<close>

function (sequential) flatten_loop :: "obj \<Rightarrow> string \<Rightarrow> flat \<Rightarrow> flat" where
  "flatten_loop [] prefix flattened = flattened"
| "flatten_loop ((key, JObj sub) # rest) prefix flattened =
     flatten_loop rest prefix
       (flattened ++ flatten_loop sub (newKey_of prefix key) Map.empty)"
| "flatten_loop ((key, v) # rest) prefix flattened =
     flatten_loop rest prefix (flattened(newKey_of prefix key \<mapsto> v))"
  by pat_completeness auto
termination
  by (relation "measure (\<lambda>(es, p, f). size_list (size_prod (\<lambda>_. 0) size) es)") auto

definition flattenMapping :: "obj \<Rightarrow> string \<Rightarrow> flat" where
  "flattenMapping entries prefix = flatten_loop entries prefix Map.empty"

text \<open>
  \<open>Object.entries(v)\<close> of an arbitrary value: a type error on \<open>null\<close>, the properties
  of an object, the indexed elements of an array, the indexed characters of a string,
  nothing for a number or a boolean.
\<close>

fun Object_entries :: "jsval \<Rightarrow> error + obj" where
  "Object_entries JNull = Inl TypeError"
| "Object_entries (JObj kvs) = Inr kvs"
| "Object_entries (JArr xs) = Inr (zip (map show_nat [0..<length xs]) xs)"
| "Object_entries (JStr s) = Inr (zip (map show_nat [0..<length s]) (map (\<lambda>c. JStr [c]) s))"
| "Object_entries v = Inr []"

text \<open>
  \<open>augmentWithUnits\<close>: the \<open>forEach\<close> over the units with their index. Reading
  \<open>unit.price\<close> of a \<open>null\<close> unit throws.
\<close>

definition set_if_defined :: "flat \<Rightarrow> string \<Rightarrow> jsval option \<Rightarrow> flat" where
  "set_if_defined augmented key v =
     (case v of None \<Rightarrow> augmented | Some x \<Rightarrow> augmented(key \<mapsto> x))"

fun augment_loop :: "jsval list \<Rightarrow> nat \<Rightarrow> flat \<Rightarrow> error + flat" where
  "augment_loop [] index augmented = Inr augmented"
| "augment_loop (unit # rest) index augmented =
     (if unit = JNull then Inl TypeError
      else
        (let unitIndex = index + 1;
             a1 = set_if_defined augmented (''price_'' @ show_nat unitIndex) (getProp unit ''price'');
             a2 = set_if_defined a1 (''beds_'' @ show_nat unitIndex) (getProp unit ''beds'');
             a3 = set_if_defined a2 (''bathrooms_'' @ show_nat unitIndex) (getProp unit ''bathrooms'')
         in augment_loop rest (index + 1) a3))"

definition augmentWithUnits :: "flat \<Rightarrow> jsval list \<Rightarrow> error + flat" where
  "augmentWithUnits baseRecord units_arg = augment_loop units_arg 0 baseRecord"

text \<open>
  The schemas of types.ts, as the validation library reads them: an object schema
  checks each declared key and drops the others; \<open>z.number()\<close> accepts a number,
  \<open>z.string()\<close> a string; \<open>.optional()\<close> also accepts \<open>undefined\<close> (an absent key) and
  \<open>.nullable()\<close> also \<open>null\<close>. \<open>None\<close> is a failed validation.
\<close>

fun optional_number :: "jsval option \<Rightarrow> rat option option" where
  "optional_number None = Some None"
| "optional_number (Some (JNum n)) = Some (Some n)"
| "optional_number (Some v) = None"

fun nullable_optional_number :: "jsval option \<Rightarrow> rat nullable_optional option" where
  "nullable_optional_number None = Some Undefined"
| "nullable_optional_number (Some JNull) = Some Null"
| "nullable_optional_number (Some (JNum n)) = Some (Value n)"
| "nullable_optional_number (Some v) = None"

fun nullable_optional_string :: "jsval option \<Rightarrow> string nullable_optional option" where
  "nullable_optional_string None = Some Undefined"
| "nullable_optional_string (Some JNull) = Some Null"
| "nullable_optional_string (Some (JStr s)) = Some (Value s)"
| "nullable_optional_string (Some v) = None"

fun required_string :: "jsval option \<Rightarrow> string option" where
  "required_string (Some (JStr s)) = Some s"
| "required_string v = None"

fun UnitSchema_parse :: "jsval \<Rightarrow> ZillowUnit option" where
  "UnitSchema_parse (JObj kvs) =
     Option.bind (optional_number (map_of kvs ''price'')) (\<lambda>p.
     Option.bind (optional_number (map_of kvs ''beds'')) (\<lambda>b.
     Option.bind (optional_number (map_of kvs ''bathrooms'')) (\<lambda>ba.
       Some \<lparr> price_u = p, beds_u = b, bathrooms_u = ba \<rparr>)))"
| "UnitSchema_parse v = None"

fun nullable_optional_units :: "jsval option \<Rightarrow> ZillowUnit list nullable_optional option" where
  "nullable_optional_units None = Some Undefined"
| "nullable_optional_units (Some JNull) = Some Null"
| "nullable_optional_units (Some (JArr us)) = map_option Value (those (map UnitSchema_parse us))"
| "nullable_optional_units (Some v) = None"

definition ZillowPropertySchema_parse :: "flat \<Rightarrow> ZillowProperty option" where
  "ZillowPropertySchema_parse input =
     Option.bind (nullable_optional_number (input ''longitude'')) (\<lambda>lon.
     Option.bind (nullable_optional_number (input ''latitude'')) (\<lambda>lat.
     Option.bind (required_string (input ''detailUrl'')) (\<lambda>url.
     Option.bind (nullable_optional_number (input ''price'')) (\<lambda>pr.
     Option.bind (nullable_optional_number (input ''bedrooms'')) (\<lambda>bd.
     Option.bind (nullable_optional_number (input ''bathrooms'')) (\<lambda>ba.
     Option.bind (nullable_optional_number (input ''livingArea'')) (\<lambda>la.
     Option.bind (nullable_optional_string (input ''propertyType'')) (\<lambda>pt.
     Option.bind (nullable_optional_string (input ''address'')) (\<lambda>ad.
     Option.bind (nullable_optional_units (input ''units'')) (\<lambda>us.
       Some \<lparr> longitude = lon, latitude = lat, detailUrl = url, price = pr,
              bedrooms = bd, bathrooms = ba, livingArea = la, propertyType = pt,
              address = ad, units = us \<rparr>))))))))))"

text \<open>
  The body of the loop of \<open>recordsToProperties\<close> up to the validation: flatten the
  record, then expand and re-attach a non-empty \<open>units\<close> array. Both steps stand outside
  the \<open>try\<close> block, so their type errors leave the function.
\<close>

definition flattenRecord :: "jsval \<Rightarrow> error + flat" where
  "flattenRecord record =
     (case Object_entries record of
        Inl e \<Rightarrow> Inl e
      | Inr entries \<Rightarrow>
          (let flattened = flattenMapping entries [] in
           case getProp record ''units'' of
             Some (JArr us) \<Rightarrow>
               if length us > 0 then
                 (case augmentWithUnits flattened us of
                    Inl e \<Rightarrow> Inl e
                  | Inr augmented \<Rightarrow> Inr ((flattened ++ augmented)(''units'' \<mapsto> JArr us)))
               else Inr flattened
           | _ \<Rightarrow> Inr flattened))"

text \<open>
  \<open>recordsToProperties\<close>: the loop over the records with the properties pushed so far.
  A failed validation is caught and the record skipped.
\<close>

fun records_loop :: "jsval list \<Rightarrow> ZillowProperty list \<Rightarrow> error + ZillowProperty list" where
  "records_loop [] properties = Inr properties"
| "records_loop (record # rest) properties =
     (case flattenRecord record of
        Inl e \<Rightarrow> Inl e
      | Inr flattened \<Rightarrow>
          (case ZillowPropertySchema_parse flattened of
             Some property \<Rightarrow> records_loop rest (properties @ [property])
           | None \<Rightarrow> records_loop rest properties))"

definition recordsToProperties :: "jsval list \<Rightarrow> error + ZillowProperty list" where
  "recordsToProperties records = records_loop records []"

text \<open>
  What \<open>recordsToProperties\<close> is compared with: the validation of one record, and the
  validations of a batch collected in order.
\<close>

definition toProperty :: "jsval \<Rightarrow> ZillowProperty option" where
  "toProperty record =
     (case flattenRecord record of
        Inl e \<Rightarrow> None
      | Inr flattened \<Rightarrow> ZillowPropertySchema_parse flattened)"

definition throws :: "jsval \<Rightarrow> bool" where
  "throws record = (case flattenRecord record of Inl e \<Rightarrow> True | Inr flattened \<Rightarrow> False)"


section \<open>Auxiliary predicates and fixtures\<close>

text \<open>\<open>Number.isInteger\<close> on the rationals.\<close>

definition is_integer :: "rat \<Rightarrow> bool" where
  "is_integer x = (of_int \<lfloor>x\<rfloor> = x)"





text \<open>Records as the tests of the repository build them.\<close>

definition test_record :: "string \<Rightarrow> string \<Rightarrow> int option \<Rightarrow> NashvilleRental" where
  "test_record rid url p =
     \<lparr> record_id = rid, detail_url = url, longitude_r = None, latitude_r = None,
       address_r = None, price_r = p, bedrooms_r = None, bathrooms_r = None,
       living_area = None, property_type = None, units_r = None,
       ingestion_date = ''2025-11-10'' \<rparr>"

definition test_property :: "string \<Rightarrow> rat nullable_optional \<Rightarrow> ZillowProperty" where
  "test_property url p =
     \<lparr> longitude = Undefined, latitude = Undefined, detailUrl = url, price = p,
       bedrooms = Undefined, bathrooms = Undefined, livingArea = Undefined,
       propertyType = Undefined, address = Undefined, units = Undefined \<rparr>"

text \<open>
  The trace of \<open>count\<close> failed attempts that are retried, the first of them attempt
  number \<open>attempt\<close>: each is a request followed by a sleep of
  \<open>cooldown * attempt * 1000\<close> milliseconds.
\<close>

fun backoff_trace :: "obj \<Rightarrow> rat \<Rightarrow> nat \<Rightarrow> nat \<Rightarrow> event list" where
  "backoff_trace rp cooldown attempt 0 = []"
| "backoff_trace rp cooldown attempt (Suc count) =
     [Request rp, Sleep (cooldown * of_nat attempt * 1000)]
       @ backoff_trace rp cooldown (Suc attempt) count"

text \<open>
  A failed attempt that the loop retries while attempts remain: an axios error whose
  status is none of 404, 401 and 403 (a 429, any other status, or no response).
\<close>

fun retryable :: "http_result \<Rightarrow> bool" where
  "retryable (AxiosFailure response) =
     (map_option fst response \<noteq> Some 404 \<and> map_option fst response \<noteq> Some 401
      \<and> map_option fst response \<noteq> Some 403)"
| "retryable r = False"


text \<open>
  What the page iteration is compared with. A page has results when its payload is
  truthy and its result list is not empty. The pages that yield are the leading pages
  with results, cut after the first one that reaches the declared total. The pages
  fetched are those, and the page after them when the iteration stopped on a page
  without results.
\<close>

definition has_results :: "jsval \<Rightarrow> bool" where
  "has_results payload = (truthy payload \<and> extractResults payload \<noteq> [])"

fun until_last :: "(nat \<Rightarrow> bool) \<Rightarrow> nat list \<Rightarrow> nat list" where
  "until_last is_last [] = []"
| "until_last is_last (p # ps) = (if is_last p then [p] else p # until_last is_last ps)"

definition yielding_pages :: "(nat \<Rightarrow> jsval) \<Rightarrow> nat list \<Rightarrow> nat list" where
  "yielding_pages payload_of pages =
     until_last (\<lambda>p. lastPageReached p (payload_of p))
       (takeWhile (\<lambda>p. has_results (payload_of p)) pages)"

definition fetched_pages :: "(nat \<Rightarrow> jsval) \<Rightarrow> nat list \<Rightarrow> nat list" where
  "fetched_pages payload_of pages =
     (let ys = yielding_pages payload_of pages
      in if ys \<noteq> [] \<and> lastPageReached (last ys) (payload_of (last ys)) then ys
         else take (Suc (length ys)) pages)"


text \<open>Fixtures for the fetch client: search parameters, a payload, and three services.\<close>

definition test_params :: obj where
  "test_params = [(''status_type'', JStr ''ForRent''), (''location'', JStr ''37206, Nashville, TN'')]"

definition test_payload :: jsval where
  "test_payload =
     JObj [(''results'', JArr [JObj [(''detailUrl'', JStr ''https://zillow.com/property/123'')]])]"

text \<open>A service that answers 429 to the first request and succeeds afterwards.\<close>

definition srv_429_once :: server where
  "srv_429_once i rq = (if i = 0 then AxiosFailure (Some (429, JNull)) else Response test_payload)"

text \<open>A service that answers 429 to every request.\<close>

definition srv_429_always :: server where
  "srv_429_always i rq = AxiosFailure (Some (429, JStr ''Too Many Requests''))"



text \<open>
  A service with three pages that declares the total: pages 1 and 2 carry results, page 3
  carries an empty result list.
\<close>

definition three_page_api :: "obj \<Rightarrow> jsval" where
  "three_page_api rq =
     (if map_of rq ''page'' = Some (JNum 1) then
        JObj [(''results'', JArr [JStr ''a'', JStr ''b'']), (''totalPages'', JNum 3)]
      else if map_of rq ''page'' = Some (JNum 2) then
        JObj [(''results'', JArr [JStr ''c'']), (''totalPages'', JNum 3)]
      else JObj [(''results'', JArr []), (''totalPages'', JNum 3)])"

definition srv_three_pages :: server where
  "srv_three_pages i rq = Response (three_page_api rq)"




section \<open>Arithmetic helpers\<close>

lemma floor_rat_numeral_div [simp]:
  "\<lfloor>(numeral a :: rat) / numeral b\<rfloor> = numeral a div numeral b"
  using floor_divide_of_int_eq [of "numeral a" "numeral b", where ?'a = rat] by simp

lemma floor_rat_one_div [simp]:
  "\<lfloor>(1 :: rat) / numeral b\<rfloor> = 1 div numeral b"
  using floor_divide_of_int_eq [of 1 "numeral b", where ?'a = rat] by simp

lemma floor_rat_neg_numeral_div [simp]:
  "\<lfloor>- ((numeral a :: rat) / numeral b)\<rfloor> = - numeral a div numeral b"
  using floor_divide_of_int_eq [of "- numeral a" "numeral b", where ?'a = rat] by simp

lemma Math_round_is_round: "Math_round x = round x"
  by (simp add: Math_round_def round_def)


section \<open>The insertion-ordered map and the deduplication\<close>

lemma Map_set_keys:
  "map fst (Map_set m k v) = (if k \<in> set (map fst m) then map fst m else map fst m @ [k])"
  by (induction m) force+

lemma Map_set_map_of: "map_of (Map_set m k v) = (map_of m)(k \<mapsto> v)"
  by (induction m) auto

lemma filter_removeAll_member:
  "u \<in> K \<Longrightarrow> filter (\<lambda>x. x \<notin> K) (removeAll u xs) = filter (\<lambda>x. x \<notin> K) xs"
  by (induction xs) auto

lemma first_seen_set: "set (first_seen xs) = set xs"
  by (induction xs) auto

lemma first_seen_distinct: "distinct (first_seen xs)"
  by (induction xs) (auto simp: distinct_removeAll)

lemma first_seen_id: "distinct xs \<Longrightarrow> first_seen xs = xs"
  by (induction xs) (auto simp: first_seen_set)

text \<open>
  The keys of the map after the loop: the keys it started with, then the new URLs in
  the order they were first met.
\<close>

lemma dedup_loop_keys:
  "map fst (dedup_loop rs m) =
     map fst m @ filter (\<lambda>u. u \<notin> set (map fst m)) (first_seen (map detail_url rs))"
proof (induction rs arbitrary: m)
  case Nil
  then show ?case by simp
next
  case (Cons r rs)
  show ?case
  proof (cases "detail_url r \<in> set (map fst m)")
    case True
    then show ?thesis
      using Cons.IH [of "Map_set m (detail_url r) r"]
      by (simp add: Map_set_keys filter_removeAll_member)
  next
    case False
    have "filter (\<lambda>u. u \<noteq> detail_url r \<and> u \<notin> fst ` set m) xs
          = filter (\<lambda>u. u \<notin> fst ` set m) (removeAll (detail_url r) xs)" for xs
      by (induction xs) auto
    with False show ?thesis
      using Cons.IH [of "Map_set m (detail_url r) r"]
      by (simp add: Map_set_keys)
  qed
qed

text \<open>The value under a URL after the loop: the last record with that URL.\<close>

lemma dedup_loop_map_of:
  "map_of (dedup_loop rs m) u =
     (case last_with_url u rs of Some r \<Rightarrow> Some r | None \<Rightarrow> map_of m u)"
  by (induction rs arbitrary: m) (auto simp: Map_set_map_of split: option.splits)

lemma distinct_keys_values:
  "distinct (map fst al) \<Longrightarrow> map (map_of al) (map fst al) = map (\<lambda>kv. Some (snd kv)) al"
  by (induction al) (auto simp: rev_image_eqI)

lemma last_with_url_Some: "last_with_url u rs = Some r \<Longrightarrow> detail_url r = u \<and> r \<in> set rs"
  by (induction rs) (auto split: option.splits if_splits)

lemma dedup_keys: "map fst (dedup_loop rs []) = first_seen (map detail_url rs)"
  using dedup_loop_keys [of rs "[]"] by simp

lemma dedup_values:
  "map Some (deduplicateByDetailUrl rs) =
     map (\<lambda>u. last_with_url u rs) (first_seen (map detail_url rs))"
proof -
  let ?al = "dedup_loop rs []"
  have d: "distinct (map fst ?al)"
    by (simp add: dedup_keys first_seen_distinct)
  have m: "map_of ?al = (\<lambda>u. last_with_url u rs)"
    by (rule ext) (simp add: dedup_loop_map_of split: option.splits)
  have "map Some (deduplicateByDetailUrl rs) = map (\<lambda>kv. Some (snd kv)) ?al"
    by (simp add: deduplicateByDetailUrl_def Map_values_def)
  also have "\<dots> = map (map_of ?al) (map fst ?al)"
    using distinct_keys_values [OF d] by simp
  finally show ?thesis
    by (simp add: m dedup_keys)
qed

lemma dedup_urls: "map detail_url (deduplicateByDetailUrl rs) = first_seen (map detail_url rs)"
proof -
  have "map Some xs = map (\<lambda>u. last_with_url u rs) us \<Longrightarrow> map detail_url xs = us" for xs us
  proof (induction us arbitrary: xs)
    case Nil
    then show ?case by simp
  next
    case (Cons u us)
    then obtain x xs' where xs: "xs = x # xs'" by (cases xs) auto
    with Cons.prems have "last_with_url u rs = Some x" by simp
    then have "detail_url x = u" by (rule last_with_url_Some [THEN conjunct1])
    with Cons xs show ?case by simp
  qed
  from this [OF dedup_values] show ?thesis .
qed

text \<open>
  Claim C2. For every finite sequence of storage records, \<open>deduplicateByDetailUrl\<close>
  keeps exactly one record per distinct detail URL (its URLs are distinct and are the
  URLs of the input), and each record it keeps is the last record of the input with
  that URL; on an input without duplicate URLs the output is as long as the input; on
  the empty input the output is empty.
\<close>

theorem deduplicate_last_wins:
  "distinct (map detail_url (deduplicateByDetailUrl rs))
   \<and> set (map detail_url (deduplicateByDetailUrl rs)) = set (map detail_url rs)
   \<and> (\<forall>r \<in> set (deduplicateByDetailUrl rs). last_with_url (detail_url r) rs = Some r)
   \<and> (distinct (map detail_url rs) \<longrightarrow> length (deduplicateByDetailUrl rs) = length rs)
   \<and> deduplicateByDetailUrl [] = []"
proof (intro conjI ballI impI)
  show "distinct (map detail_url (deduplicateByDetailUrl rs))"
    by (simp only: dedup_urls first_seen_distinct)
  show "set (map detail_url (deduplicateByDetailUrl rs)) = set (map detail_url rs)"
    by (simp only: dedup_urls first_seen_set)
  show "deduplicateByDetailUrl [] = []"
    by (simp add: deduplicateByDetailUrl_def Map_values_def)
next
  fix r
  assume "r \<in> set (deduplicateByDetailUrl rs)"
  then have "Some r \<in> set (map Some (deduplicateByDetailUrl rs))"
    by simp
  then obtain u where u: "last_with_url u rs = Some r"
    unfolding dedup_values by auto
  then have "detail_url r = u"
    by (rule last_with_url_Some [THEN conjunct1])
  with u show "last_with_url (detail_url r) rs = Some r"
    by simp
next
  assume "distinct (map detail_url rs)"
  then have "first_seen (map detail_url rs) = map detail_url rs"
    by (rule first_seen_id)
  then have "length (map detail_url (deduplicateByDetailUrl rs)) = length (map detail_url rs)"
    by (simp only: dedup_urls)
  then show "length (deduplicateByDetailUrl rs) = length rs"
    by simp
qed

text \<open>
  The records of the repository's test: two records share a URL and the later one, with
  the updated price, is kept; two records with different URLs are both kept.
\<close>

theorem deduplicate_last_wins_witness:
  "deduplicateByDetailUrl
     [test_record ''id1'' ''https://zillow.com/property/123'' (Some 2000),
      test_record ''id2'' ''https://zillow.com/property/123'' (Some 2100),
      test_record ''id3'' ''https://zillow.com/property/456'' (Some 1800)]
   = [test_record ''id2'' ''https://zillow.com/property/123'' (Some 2100),
      test_record ''id3'' ''https://zillow.com/property/456'' (Some 1800)]
   \<and> last_with_url ''https://zillow.com/property/123''
        [test_record ''id1'' ''https://zillow.com/property/123'' (Some 2000),
         test_record ''id2'' ''https://zillow.com/property/123'' (Some 2100),
         test_record ''id3'' ''https://zillow.com/property/456'' (Some 1800)]
       = Some (test_record ''id2'' ''https://zillow.com/property/123'' (Some 2100))
   \<and> distinct (map detail_url
        [test_record ''id1'' ''https://zillow.com/property/123'' None,
         test_record ''id2'' ''https://zillow.com/property/456'' None])
   \<and> length (deduplicateByDetailUrl
        [test_record ''id1'' ''https://zillow.com/property/123'' None,
         test_record ''id2'' ''https://zillow.com/property/456'' None]) = 2"
  using deduplicate_last_wins
          [of "[test_record ''id1'' ''https://zillow.com/property/123'' (Some 2000),
                test_record ''id2'' ''https://zillow.com/property/123'' (Some 2100),
                test_record ''id3'' ''https://zillow.com/property/456'' (Some 1800)]"]
        deduplicate_last_wins
          [of "[test_record ''id1'' ''https://zillow.com/property/123'' None,
                test_record ''id2'' ''https://zillow.com/property/456'' None]"]
  by (simp add: deduplicateByDetailUrl_def Map_values_def test_record_def)

text \<open>
  Claim C10. The output of \<open>deduplicateByDetailUrl\<close> lists the distinct detail URLs
  of the input in the order of their first occurrence, and the record at each position
  is the last record of the input with that URL: a later duplicate takes the place at
  which its URL first appeared.
\<close>

theorem deduplicate_first_seen_order:
  "map detail_url (deduplicateByDetailUrl rs) = first_seen (map detail_url rs)
   \<and> map Some (deduplicateByDetailUrl rs)
       = map (\<lambda>u. last_with_url u rs) (first_seen (map detail_url rs))"
  by (simp only: dedup_urls dedup_values)

text \<open>
  Three groups of URLs, two of them with duplicates: the output order is that of the
  first occurrences (u1, u2, u3) and the records are the last ones (id3, id5, id4).
\<close>

theorem deduplicate_first_seen_order_witness:
  "map record_id (deduplicateByDetailUrl
     [test_record ''id1'' ''u1'' None, test_record ''id2'' ''u2'' None,
      test_record ''id3'' ''u1'' None, test_record ''id4'' ''u3'' None,
      test_record ''id5'' ''u2'' None])
   = [''id3'', ''id5'', ''id4'']
   \<and> first_seen [''u1'', ''u2'', ''u1'', ''u3'', ''u2''] = [''u1'', ''u2'', ''u3'']"
  using deduplicate_first_seen_order
     [of "[test_record ''id1'' ''u1'' None, test_record ''id2'' ''u2'' None,
      test_record ''id3'' ''u1'' None, test_record ''id4'' ''u3'' None,
      test_record ''id5'' ''u2'' None]"]
  by (simp add: deduplicateByDetailUrl_def Map_values_def test_record_def)


section \<open>The price in minor units\<close>

text \<open>
  Claim C1 says the stored price is \<open>round (p * 100)\<close> for every price \<open>p\<close>. At the
  price 0 the truthiness test of \<open>propertyToRecord\<close> takes the \<open>null\<close> branch: the
  stored price is \<open>null\<close>, where \<open>round (0 * 100)\<close> is 0.
\<close>

theorem propertyToRecord_zero_price:
  "price_r (propertyToRecord H (test_property ''https://zillow.com/property/1'' (Value 0)) ''2025-11-10'')
     = None
   \<and> price_r (propertyToRecord H (p\<lparr>price := Value 0\<rparr>) d) = None
   \<and> Some (round ((0 :: rat) * 100)) = Some 0"
  by (simp add: propertyToRecord_def test_property_def)

text \<open>
  Every price other than 0 is stored as \<open>round (p * 100)\<close>, and an absent or \<open>null\<close>
  price as \<open>null\<close>.
\<close>

theorem propertyToRecord_price_cents:
  "(x \<noteq> 0 \<longrightarrow> price_r (propertyToRecord H (p\<lparr>price := Value x\<rparr>) d) = Some (round (x * 100)))
   \<and> price_r (propertyToRecord H (p\<lparr>price := Null\<rparr>) d) = None
   \<and> price_r (propertyToRecord H (p\<lparr>price := Undefined\<rparr>) d) = None"
  by (simp add: propertyToRecord_def Math_round_is_round)

theorem propertyToRecord_price_cents_witness:
  "price_r (propertyToRecord sha256_hex
       (test_property ''https://zillow.com/property/1'' (Value (20005 / 10))) ''2025-11-10'')
     = Some 200050
   \<and> price_r (propertyToRecord sha256_hex
       (test_property ''https://zillow.com/property/2'' (Value (159999 / 100))) ''2025-11-10'')
     = Some 159999"
  using propertyToRecord_price_cents
          [of "20005 / 10" sha256_hex "test_property ''https://zillow.com/property/1'' Undefined"
              "''2025-11-10''"]
        propertyToRecord_price_cents
          [of "159999 / 100" sha256_hex "test_property ''https://zillow.com/property/2'' Undefined"
              "''2025-11-10''"]
  by (simp add: test_property_def round_def)


section \<open>The record identifier\<close>
































section \<open>The retry loop of the fetch client\<close>

lemma requests_append [simp]: "requests (tr @ tr') = requests tr @ requests tr'"
  by (induction tr rule: requests.induct) auto

lemma yields_append [simp]: "yields (tr @ tr') = yields tr @ yields tr'"
  by (induction tr rule: yields.induct) auto

lemma requests_backoff [simp]: "requests (backoff_trace rp c a k) = replicate k rp"
  by (induction k arbitrary: a) auto

lemma yields_backoff [simp]: "yields (backoff_trace rp c a k) = []"
  by (induction k arbitrary: a) auto

lemma fetch_attempts_retry:
  assumes "retryable (srv (length (requests tr)) rp)" and "of_nat n < retries"
  shows "fetch_attempts srv rp retries cooldown n tr =
         fetch_attempts srv rp retries cooldown (n + 1)
           (tr @ [Request rp, Sleep (cooldown * of_nat n * 1000)])"
proof -
  obtain response where r: "srv (length (requests tr)) rp = AxiosFailure response"
    using assms(1) by (cases "srv (length (requests tr)) rp") auto
  with assms show ?thesis
    by (subst fetch_attempts.simps) (simp add: Let_def)
qed

lemma fetch_attempts_retries:
  assumes "\<forall>i<k. retryable (srv (length (requests tr) + i) rp)"
    and "of_nat (n + k) \<le> retries"
  shows "fetch_attempts srv rp retries cooldown n tr =
         fetch_attempts srv rp retries cooldown (n + k) (tr @ backoff_trace rp cooldown n k)"
  using assms
proof (induction k arbitrary: n tr)
  case 0
  then show ?case by simp
next
  case (Suc k)
  from Suc.prems(1) [rule_format, of 0] have r0: "retryable (srv (length (requests tr)) rp)"
    by simp
  have "(of_nat n :: rat) < of_nat (n + Suc k)"
    by simp
  with Suc.prems(2) have lt: "of_nat n < retries"
    by linarith
  let ?tr' = "tr @ [Request rp, Sleep (cooldown * of_nat n * 1000)]"
  have "\<forall>i<k. retryable (srv (length (requests ?tr') + i) rp)"
  proof (intro allI impI)
    fix i
    assume "i < k"
    then have "Suc i < Suc k" by simp
    from Suc.prems(1) [rule_format, OF this]
    show "retryable (srv (length (requests ?tr') + i) rp)"
      by simp
  qed
  moreover have "of_nat (Suc n + k) \<le> retries"
    using Suc.prems(2) by simp
  ultimately have "fetch_attempts srv rp retries cooldown (Suc n) ?tr' =
      fetch_attempts srv rp retries cooldown (Suc n + k) (?tr' @ backoff_trace rp cooldown (Suc n) k)"
    by (rule Suc.IH)
  with fetch_attempts_retry [of srv tr rp n retries cooldown] r0 lt show ?case
    by simp
qed

lemma fetch_attempts_response:
  "of_nat n \<le> retries \<Longrightarrow> srv (length (requests tr)) rp = Response payload \<Longrightarrow>
   fetch_attempts srv rp retries cooldown n tr = (Inr payload, tr @ [Request rp])"
  by (subst fetch_attempts.simps) simp



lemma fetch_attempts_429_last:
  "of_nat n \<le> retries \<Longrightarrow> \<not> of_nat n < retries \<Longrightarrow>
   srv (length (requests tr)) rp = AxiosFailure (Some (429, d)) \<Longrightarrow>
   fetch_attempts srv rp retries cooldown n tr = (Inl (RateLimitError (Some d)), tr @ [Request rp])"
  by (subst fetch_attempts.simps) simp

lemma fetch_attempts_step:
  "(\<not> of_nat n \<le> retries \<and> fetch_attempts srv rp retries cooldown n tr = (Inr JNull, tr))
   \<or> (of_nat n \<le> retries
       \<and> (\<exists>res. fetch_attempts srv rp retries cooldown n tr = (res, tr @ [Request rp])))
   \<or> (of_nat n < retries
       \<and> fetch_attempts srv rp retries cooldown n tr =
           fetch_attempts srv rp retries cooldown (n + 1)
             (tr @ [Request rp, Sleep (cooldown * of_nat n * 1000)]))"
  using fetch_attempts.simps [of srv rp retries cooldown n tr]
  by (auto simp: Let_def split: http_result.splits if_splits)

lemma fetch_attempts_measure:
  "of_nat n < (retries :: rat) \<Longrightarrow> nat \<lceil>retries\<rceil> - (n + 1) < nat \<lceil>retries\<rceil> - n"
proof -
  assume "of_nat n < retries"
  then have "int n < \<lceil>retries\<rceil>"
    by (simp add: less_ceiling_iff)
  then show ?thesis by simp
qed

lemma fetch_attempts_requests:
  "set (requests (snd (fetch_attempts srv rp retries cooldown n tr))) \<subseteq> insert rp (set (requests tr))"
proof (induction "nat \<lceil>retries\<rceil> - n" arbitrary: n tr rule: less_induct)
  case less
  from fetch_attempts_step [of n retries srv rp cooldown tr] show ?case
  proof (elim disjE conjE exE)
    assume lt: "of_nat n < retries"
      and eq: "fetch_attempts srv rp retries cooldown n tr =
           fetch_attempts srv rp retries cooldown (n + 1)
             (tr @ [Request rp, Sleep (cooldown * of_nat n * 1000)])"
    from less [OF fetch_attempts_measure [OF lt], of "tr @ [Request rp, Sleep (cooldown * of_nat n * 1000)]"]
    show ?thesis
      unfolding eq by auto
  qed auto
qed


lemma requestParams_page:
  "map_of (requestParams_of params p) ''page'' = Some (JNum (safePageNumber p))"
  by (simp add: requestParams_of_def obj_set_def Map_set_map_of)


text \<open>
  Claim C3. In \<open>fetchPage\<close>, a 429 response on attempt \<open>n\<close> with attempts remaining
  is followed by a sleep of \<open>cooldown * n\<close> seconds (\<open>cooldown * n * 1000\<close>
  milliseconds) and by attempt \<open>n + 1\<close>. When the first \<open>k\<close> attempts get a 429 and
  attempt \<open>k + 1\<close> (within the retries) succeeds, \<open>fetchPage\<close> returns that payload.
  When every one of the \<open>retries\<close> attempts gets a 429, \<open>fetchPage\<close> raises the
  rate-limit error after the last attempt: the trace ends with that request, with no
  sleep and no request after it.
\<close>

theorem fetchPage_rate_limit:
  "(of_nat n < retries \<and> srv (length (requests tr)) rp = AxiosFailure (Some (429, d)) \<longrightarrow>
      fetch_attempts srv rp retries cooldown n tr =
        fetch_attempts srv rp retries cooldown (n + 1)
          (tr @ [Request rp, Sleep (cooldown * of_nat n * 1000)]))
   \<and> ((\<forall>i<k. srv (length (requests tr) + i) (requestParams_of params page)
                = AxiosFailure (Some (429, dat i)))
        \<and> srv (length (requests tr) + k) (requestParams_of params page) = Response payload
        \<and> of_nat (Suc k) \<le> retries \<longrightarrow>
      fetchPage srv params page retries cooldown tr =
        (Inr payload,
         tr @ backoff_trace (requestParams_of params page) cooldown 1 k
            @ [Request (requestParams_of params page)]))
   \<and> ((\<forall>i<Suc k. srv (length (requests tr) + i) (requestParams_of params page)
                = AxiosFailure (Some (429, dat i)))
        \<and> retries = of_nat (Suc k) \<longrightarrow>
      fetchPage srv params page retries cooldown tr =
        (Inl (RateLimitError (Some (dat k))),
         tr @ backoff_trace (requestParams_of params page) cooldown 1 k
            @ [Request (requestParams_of params page)]))"
proof (intro conjI impI; (elim conjE)?)
  assume "of_nat n < retries" "srv (length (requests tr)) rp = AxiosFailure (Some (429, d))"
  then show "fetch_attempts srv rp retries cooldown n tr =
        fetch_attempts srv rp retries cooldown (n + 1)
          (tr @ [Request rp, Sleep (cooldown * of_nat n * 1000)])"
    by (intro fetch_attempts_retry) simp_all
next
  let ?rp = "requestParams_of params page"
  assume a: "\<forall>i<k. srv (length (requests tr) + i) ?rp = AxiosFailure (Some (429, dat i))"
    and r: "srv (length (requests tr) + k) ?rp = Response payload"
    and le: "of_nat (Suc k) \<le> retries"
  from a have "\<forall>i<k. retryable (srv (length (requests tr) + i) ?rp)"
    by simp
  moreover from le have "of_nat (1 + k) \<le> retries"
    by simp
  ultimately have "fetch_attempts srv ?rp retries cooldown 1 tr =
      fetch_attempts srv ?rp retries cooldown (1 + k) (tr @ backoff_trace ?rp cooldown 1 k)"
    by (rule fetch_attempts_retries)
  moreover have "fetch_attempts srv ?rp retries cooldown (1 + k) (tr @ backoff_trace ?rp cooldown 1 k)
      = (Inr payload, (tr @ backoff_trace ?rp cooldown 1 k) @ [Request ?rp])"
    using le r by (intro fetch_attempts_response) simp_all
  ultimately show "fetchPage srv params page retries cooldown tr =
        (Inr payload, tr @ backoff_trace ?rp cooldown 1 k @ [Request ?rp])"
    by (simp add: fetchPage_def)
next
  let ?rp = "requestParams_of params page"
  assume a: "\<forall>i<Suc k. srv (length (requests tr) + i) ?rp = AxiosFailure (Some (429, dat i))"
    and eq: "retries = of_nat (Suc k)"
  from a have "\<forall>i<k. retryable (srv (length (requests tr) + i) ?rp)"
    by simp
  moreover from eq have "of_nat (1 + k) \<le> retries"
    by simp
  ultimately have "fetch_attempts srv ?rp retries cooldown 1 tr =
      fetch_attempts srv ?rp retries cooldown (1 + k) (tr @ backoff_trace ?rp cooldown 1 k)"
    by (rule fetch_attempts_retries)
  moreover have "fetch_attempts srv ?rp retries cooldown (1 + k) (tr @ backoff_trace ?rp cooldown 1 k)
      = (Inl (RateLimitError (Some (dat k))), (tr @ backoff_trace ?rp cooldown 1 k) @ [Request ?rp])"
    using eq a by (intro fetch_attempts_429_last) simp_all
  ultimately show "fetchPage srv params page retries cooldown tr =
        (Inl (RateLimitError (Some (dat k))), tr @ backoff_trace ?rp cooldown 1 k @ [Request ?rp])"
    by (simp add: fetchPage_def)
qed

lemma test_request: "requestParams_of test_params 1 =
   [(''status_type'', JStr ''ForRent''), (''location'', JStr ''37206, Nashville, TN''), (''page'', JNum 1)]"
  by (simp add: requestParams_of_def obj_set_def test_params_def safePageNumber_def)

text \<open>
  With the default four retries and a cooldown of five seconds: a 429 then a success
  returns the payload after one sleep of 5000 ms; a 429 on all four attempts raises the
  rate-limit error after the fourth request, the sleeps being 5000, 10000 and 15000 ms.
\<close>

theorem fetchPage_rate_limit_witness:
  "fetchPage srv_429_once test_params 1 DEFAULT_RETRIES 5 [] =
     (Inr test_payload,
      [Request (requestParams_of test_params 1), Sleep 5000, Request (requestParams_of test_params 1)])
   \<and> fetchPage srv_429_always test_params 1 DEFAULT_RETRIES 5 [] =
     (Inl (RateLimitError (Some (JStr ''Too Many Requests''))),
      [Request (requestParams_of test_params 1), Sleep 5000,
       Request (requestParams_of test_params 1), Sleep 10000,
       Request (requestParams_of test_params 1), Sleep 15000,
       Request (requestParams_of test_params 1)])
   \<and> fetch_attempts srv_429_always (requestParams_of test_params 1) 4 5 2
        [Request (requestParams_of test_params 1), Sleep 5000] =
      fetch_attempts srv_429_always (requestParams_of test_params 1) 4 5 3
        [Request (requestParams_of test_params 1), Sleep 5000,
         Request (requestParams_of test_params 1), Sleep 10000]"
proof -
  let ?rp = "requestParams_of test_params 1"
  have "fetchPage srv_429_once test_params 1 DEFAULT_RETRIES 5 [] =
     (Inr test_payload, [] @ backoff_trace ?rp 5 1 1 @ [Request ?rp])"
    using fetchPage_rate_limit [where srv = srv_429_once and tr = "[]" and k = 1
        and params = test_params and page = 1 and dat = "\<lambda>i. JNull" and payload = test_payload
        and retries = DEFAULT_RETRIES and cooldown = 5]
    by (simp add: srv_429_once_def DEFAULT_RETRIES_def)
  moreover have "fetchPage srv_429_always test_params 1 DEFAULT_RETRIES 5 [] =
     (Inl (RateLimitError (Some (JStr ''Too Many Requests''))),
      [] @ backoff_trace ?rp 5 1 3 @ [Request ?rp])"
    using fetchPage_rate_limit [where srv = srv_429_always and tr = "[]" and k = 3
        and params = test_params and page = 1 and dat = "\<lambda>i. JStr ''Too Many Requests''"
        and retries = 4 and cooldown = 5]
    by (simp add: srv_429_always_def DEFAULT_RETRIES_def)
  moreover have "fetch_attempts srv_429_always ?rp 4 5 2 [Request ?rp, Sleep 5000] =
      fetch_attempts srv_429_always ?rp 4 5 (2 + 1)
        ([Request ?rp, Sleep 5000] @ [Request ?rp, Sleep (5 * of_nat 2 * 1000)])"
    using fetchPage_rate_limit [where srv = srv_429_always and tr = "[Request ?rp, Sleep 5000]"
        and n = 2 and rp = ?rp and d = "JStr ''Too Many Requests''" and retries = 4 and cooldown = 5]
    by (simp add: srv_429_always_def)
  ultimately show ?thesis
    by (simp add: eval_nat_numeral)
qed



text \<open>
  Claim C5 says that a requested page that is not an integer is coerced to 1. The page
  5/2 is not an integer and is sent upstream as page 2.
\<close>

theorem safePageNumber_non_integer_counterexample:
  "\<not> is_integer (5 / 2) \<and> safePageNumber (5 / 2) = 2 \<and> safePageNumber (5 / 2) \<noteq> 1"
  by (simp add: is_integer_def safePageNumber_def)

text \<open>
  Claim C5, amended. The page sent upstream is \<open>max 1 (floor page)\<close>: a page below 1
  (so every page at or below 0) is sent as 1, a page of at least 1 is rounded down to
  an integer of at least 1, an integer page of at least 1 is sent unchanged, and every
  request \<open>fetchPage\<close> sends carries that page.
\<close>

theorem safePageNumber_clamps:
  "safePageNumber p = max 1 (of_int \<lfloor>p\<rfloor>)
   \<and> (p < 1 \<longrightarrow> safePageNumber p = 1)
   \<and> (1 \<le> p \<longrightarrow> safePageNumber p = of_int \<lfloor>p\<rfloor>)
   \<and> (1 \<le> p \<and> is_integer p \<longrightarrow> safePageNumber p = p)
   \<and> is_integer (safePageNumber p) \<and> 1 \<le> safePageNumber p
   \<and> (\<forall>rq \<in> set (requests (snd (fetchPage srv params p retries cooldown []))).
         map_of rq ''page'' = Some (JNum (safePageNumber p)))"
proof -
  have a: "p < 1 \<Longrightarrow> \<lfloor>p\<rfloor> \<le> 0"
    by (simp add: floor_le_iff)
  have b: "1 \<le> p \<Longrightarrow> 1 \<le> \<lfloor>p\<rfloor>"
    by (simp add: le_floor_iff)
  have c: "is_integer (max 1 (of_int \<lfloor>p\<rfloor>))"
    by (simp add: is_integer_def max_def)
  have d: "\<forall>rq \<in> set (requests (snd (fetchPage srv params p retries cooldown []))).
         map_of rq ''page'' = Some (JNum (safePageNumber p))"
    using fetch_attempts_requests [of srv "requestParams_of params p" retries cooldown 1 "[]"]
    by (auto simp: fetchPage_def requestParams_page)
  show ?thesis
    unfolding safePageNumber_def using a b c d
    by (auto simp: max_def is_integer_def safePageNumber_def)
qed

theorem safePageNumber_clamps_witness:
  "safePageNumber (5 / 2) = 2 \<and> safePageNumber 0 = 1 \<and> safePageNumber (- 3) = 1
   \<and> safePageNumber (1 / 2) = 1 \<and> safePageNumber 7 = 7
   \<and> requests (snd (fetchPage srv_three_pages test_params (5 / 2) DEFAULT_RETRIES 5 []))
       = [[(''status_type'', JStr ''ForRent''), (''location'', JStr ''37206, Nashville, TN''),
           (''page'', JNum 2)]]"
proof -
  have "requests (snd (fetchPage srv_three_pages test_params (5 / 2) DEFAULT_RETRIES 5 []))
       = [[(''status_type'', JStr ''ForRent''), (''location'', JStr ''37206, Nashville, TN''),
           (''page'', JNum 2)]]"
    by (simp add: fetchPage_def fetch_attempts_response srv_three_pages_def DEFAULT_RETRIES_def
        requestParams_of_def obj_set_def test_params_def safePageNumber_def Let_def)
  with safePageNumber_clamps [of "5 / 2" srv_three_pages test_params DEFAULT_RETRIES 5]
    safePageNumber_clamps [of 0 srv_three_pages test_params DEFAULT_RETRIES 5]
    safePageNumber_clamps [of "- 3" srv_three_pages test_params DEFAULT_RETRIES 5]
    safePageNumber_clamps [of "1 / 2" srv_three_pages test_params DEFAULT_RETRIES 5]
    safePageNumber_clamps [of 7 srv_three_pages test_params DEFAULT_RETRIES 5]
  show ?thesis
    by (simp add: is_integer_def)
qed



section \<open>The page iteration\<close>

lemma yielding_pages_Nil [simp]: "yielding_pages pl [] = []"
  by (simp add: yielding_pages_def)


lemma fetched_pages_Nil [simp]: "fetched_pages pl [] = []"
  by (simp add: fetched_pages_def)















section \<open>The record normaliser\<close>

lemma mapping_test:
  "(truthy v \<and> typeof_object v \<and> \<not> isArray v) = (\<exists>sub. v = JObj sub)"
  by (cases v) auto

lemma flatten_loop_value:
  "\<not> (\<exists>sub. v = JObj sub) \<Longrightarrow>
   flatten_loop ((key, v) # rest) prefix flattened
     = flatten_loop rest prefix (flattened(newKey_of prefix key \<mapsto> v))"
  by (cases v) simp_all

lemma flatten_loop_acc:
  "flatten_loop es prefix flattened = flattened ++ flatten_loop es prefix Map.empty"
proof (induction es arbitrary: flattened)
  case Nil
  then show ?case by simp
next
  case (Cons e es)
  obtain key v where e: "e = (key, v)" by (cases e)
  show ?case
  proof (cases "\<exists>sub. v = JObj sub")
    case True
    then obtain sub where v: "v = JObj sub" by blast
    let ?X = "flatten_loop sub (newKey_of prefix key) Map.empty"
    have "flatten_loop (e # es) prefix flattened = (flattened ++ ?X) ++ flatten_loop es prefix Map.empty"
      unfolding e v by (simp add: Cons.IH [of "flattened ++ ?X"])
    moreover have "flatten_loop (e # es) prefix Map.empty = ?X ++ flatten_loop es prefix Map.empty"
      unfolding e v by (simp add: Cons.IH [of "?X"])
    ultimately show ?thesis by simp
  next
    case False
    let ?k = "newKey_of prefix key"
    have "flatten_loop (e # es) prefix flattened
        = flatten_loop es prefix (flattened(?k \<mapsto> v))"
      using False unfolding e by (rule flatten_loop_value)
    also have "\<dots> = (flattened(?k \<mapsto> v)) ++ flatten_loop es prefix Map.empty"
      by (rule Cons.IH)
    finally have "flatten_loop (e # es) prefix flattened
        = (flattened(?k \<mapsto> v)) ++ flatten_loop es prefix Map.empty" .
    moreover have "flatten_loop (e # es) prefix Map.empty
        = flatten_loop es prefix [?k \<mapsto> v]"
      using False unfolding e by (rule flatten_loop_value)
    then have "flatten_loop (e # es) prefix Map.empty
        = [?k \<mapsto> v] ++ flatten_loop es prefix Map.empty"
      using Cons.IH [of "[?k \<mapsto> v]"] by (rule trans)
    moreover have "flattened(?k \<mapsto> v) = flattened ++ [?k \<mapsto> v]"
      by simp
    ultimately show ?thesis by (simp only: map_add_assoc)
  qed
qed

lemma flattenMapping_Nil: "flattenMapping [] prefix = Map.empty"
  by (simp add: flattenMapping_def)

lemma flattenMapping_Cons_mapping:
  "flattenMapping ((key, JObj sub) # rest) prefix =
     flattenMapping sub (newKey_of prefix key) ++ flattenMapping rest prefix"
  unfolding flattenMapping_def
  by (simp add: flatten_loop_acc [of rest prefix "flatten_loop sub (newKey_of prefix key) Map.empty"])

lemma flattenMapping_Cons_value:
  "\<not> (truthy v \<and> typeof_object v \<and> \<not> isArray v) \<Longrightarrow>
   flattenMapping ((key, v) # rest) prefix = [newKey_of prefix key \<mapsto> v] ++ flattenMapping rest prefix"
  unfolding flattenMapping_def mapping_test
  using flatten_loop_value [of v key rest prefix Map.empty]
    flatten_loop_acc [of rest prefix "[newKey_of prefix key \<mapsto> v]"]
  by (rule trans)

lemma flattenMapping_append:
  "flattenMapping (es @ es') prefix = flattenMapping es prefix ++ flattenMapping es' prefix"
proof (induction es)
  case Nil
  then show ?case by (simp add: flattenMapping_Nil)
next
  case (Cons e es)
  obtain key v where e: "e = (key, v)" by (cases e)
  show ?case
  proof (cases "truthy v \<and> typeof_object v \<and> \<not> isArray v")
    case True
    then obtain sub where "v = JObj sub" by (auto simp: mapping_test)
    with Cons e show ?thesis
      by (simp add: flattenMapping_Cons_mapping)
  next
    case False
    with Cons e show ?thesis
      by (simp add: flattenMapping_Cons_value del: map_add_upd_left)
  qed
qed





lemma records_loop_collects:
  "\<forall>r \<in> set rs. \<not> throws r \<Longrightarrow>
   records_loop rs props = Inr (props @ List.map_filter toProperty rs)"
proof (induction rs arbitrary: props)
  case Nil
  then show ?case by (simp add: map_filter_simps)
next
  case (Cons r rs)
  then obtain f where f: "flattenRecord r = Inr f"
    by (auto simp: throws_def split: sum.splits)
  with Cons show ?case
    by (simp add: map_filter_simps toProperty_def split: option.splits)
qed

lemma records_loop_throws:
  "\<forall>r \<in> set rs. \<not> throws r \<Longrightarrow> flattenRecord bad = Inl e \<Longrightarrow>
   records_loop (rs @ bad # rest) props = Inl e"
proof (induction rs arbitrary: props)
  case Nil
  then show ?case by simp
next
  case (Cons r rs)
  then obtain f where f: "flattenRecord r = Inr f"
    by (auto simp: throws_def split: sum.splits)
  with Cons show ?case
    by (simp split: option.splits)
qed

lemma parse_needs_detailUrl:
  "required_string (f ''detailUrl'') = None \<Longrightarrow> ZillowPropertySchema_parse f = None"
  by (simp add: ZillowPropertySchema_parse_def split: Option.bind_splits)

lemma parse_detailUrl:
  "ZillowPropertySchema_parse f = Some p \<Longrightarrow> f ''detailUrl'' = Some (JStr (detailUrl p))"
  by (auto simp: ZillowPropertySchema_parse_def split: Option.bind_splits elim: required_string.elims)

text \<open>
  Claim C8 says that a record without a detail URL is dropped while the other records
  of the batch are still returned. The unit expansion stands outside the \<open>try\<close> block
  and reads a property of each unit: on a batch whose second record has no detail URL
  and a \<open>units\<close> array holding \<open>null\<close>, \<open>recordsToProperties\<close> throws a type error
  and returns no property, although the first record alone validates. A batch holding
  the record \<open>null\<close> throws likewise.
\<close>

theorem recordsToProperties_null_unit_throws:
  "recordsToProperties
     [JObj [(''detailUrl'', JStr ''https://zillow.com/property/1'')],
      JObj [(''units'', JArr [JNull])]]
   = Inl TypeError
   \<and> recordsToProperties [JObj [(''detailUrl'', JStr ''https://zillow.com/property/1'')]]
       = Inr [test_property ''https://zillow.com/property/1'' Undefined]
   \<and> recordsToProperties [JObj [(''detailUrl'', JStr ''https://zillow.com/property/1'')], JNull]
       = Inl TypeError"
  by (simp add: recordsToProperties_def flattenRecord_def flattenMapping_def newKey_of_def
      augmentWithUnits_def ZillowPropertySchema_parse_def test_property_def)

text \<open>
  On a batch none of whose records throws in the flattening or the unit expansion,
  \<open>recordsToProperties\<close> returns the validated records in input order; a record whose
  flattened form has no string under \<open>detailUrl\<close> fails the validation and is dropped
  without effect on the others; every property returned carries the detail URL of its
  flattened record.
\<close>

theorem recordsToProperties_collects:
  "recordsToProperties [] = Inr []
   \<and> ((\<forall>r \<in> set rs. \<not> throws r) \<longrightarrow>
        recordsToProperties rs = Inr (List.map_filter toProperty rs))
   \<and> (flattenRecord r = Inr f \<and> required_string (f ''detailUrl'') = None \<longrightarrow>
        toProperty r = None)
   \<and> ((\<forall>r \<in> set (xs @ ys). \<not> throws r) \<and> \<not> throws bad \<and> toProperty bad = None \<longrightarrow>
        recordsToProperties (xs @ bad # ys) = recordsToProperties (xs @ ys))
   \<and> (flattenRecord r = Inr f \<and> toProperty r = Some p \<longrightarrow>
        f ''detailUrl'' = Some (JStr (detailUrl p)))"
proof -
  have a: "recordsToProperties [] = Inr []"
    by (simp add: recordsToProperties_def)
  have b: "recordsToProperties rs = Inr (List.map_filter toProperty rs)"
    if "\<forall>r \<in> set rs. \<not> throws r" for rs
    using records_loop_collects [OF that, of "[]"] by (simp add: recordsToProperties_def)
  have c: "toProperty r = None"
    if "flattenRecord r = Inr f" "required_string (f ''detailUrl'') = None"
    using that by (simp add: toProperty_def parse_needs_detailUrl)
  have d: "recordsToProperties (xs @ bad # ys) = recordsToProperties (xs @ ys)"
    if "\<forall>r \<in> set (xs @ ys). \<not> throws r" "\<not> throws bad" "toProperty bad = None"
  proof -
    from that have "\<forall>r \<in> set (xs @ bad # ys). \<not> throws r"
      by auto
    from b [OF this] b [OF that(1)] that(3) show ?thesis
      by (simp add: List.map_filter_def)
  qed
  have e: "f ''detailUrl'' = Some (JStr (detailUrl p))"
    if "flattenRecord r = Inr f" "toProperty r = Some p"
    using that by (simp add: toProperty_def parse_detailUrl)
  from a b c d e show ?thesis
    by blast
qed

text \<open>
  A batch of three records: the second has no detail URL and the third has a number
  for one; the first and a fourth, with a nested address and two units, are returned in
  order.
\<close>

lemma batch_eval:
  "\<not> throws (JObj [(''detailUrl'', JStr ''u1''), (''price'', JNum 2000)])
   \<and> \<not> throws (JObj [(''price'', JNum 1800)])
   \<and> \<not> throws (JObj [(''detailUrl'', JNum 5)])
   \<and> \<not> throws (JObj [(''detailUrl'', JStr ''u4''), (''address'', JObj [(''street'', JStr ''1 Main St'')]),
         (''units'', JArr [JObj [(''price'', JNum 2100)], JObj [(''beds'', JNum 2)]])])
   \<and> toProperty (JObj [(''detailUrl'', JStr ''u1''), (''price'', JNum 2000)])
       = Some (test_property ''u1'' (Value 2000))
   \<and> toProperty (JObj [(''price'', JNum 1800)]) = None
   \<and> toProperty (JObj [(''detailUrl'', JNum 5)]) = None
   \<and> toProperty (JObj [(''detailUrl'', JStr ''u4''), (''address'', JObj [(''street'', JStr ''1 Main St'')]),
         (''units'', JArr [JObj [(''price'', JNum 2100)], JObj [(''beds'', JNum 2)]])])
       = Some ((test_property ''u4'' Undefined)
           \<lparr> units := Value [\<lparr> price_u = Some 2100, beds_u = None, bathrooms_u = None \<rparr>,
                               \<lparr> price_u = None, beds_u = Some 2, bathrooms_u = None \<rparr>] \<rparr>)"
  by (simp add: throws_def toProperty_def flattenRecord_def flattenMapping_def newKey_of_def
      augmentWithUnits_def set_if_defined_def ZillowPropertySchema_parse_def test_property_def
      show_nat.simps)

theorem recordsToProperties_collects_witness:
  "recordsToProperties
     [JObj [(''detailUrl'', JStr ''u1''), (''price'', JNum 2000)],
      JObj [(''price'', JNum 1800)],
      JObj [(''detailUrl'', JNum 5)],
      JObj [(''detailUrl'', JStr ''u4''), (''address'', JObj [(''street'', JStr ''1 Main St'')]),
         (''units'', JArr [JObj [(''price'', JNum 2100)], JObj [(''beds'', JNum 2)]])]]
   = Inr [test_property ''u1'' (Value 2000),
          (test_property ''u4'' Undefined)
           \<lparr> units := Value [\<lparr> price_u = Some 2100, beds_u = None, bathrooms_u = None \<rparr>,
                               \<lparr> price_u = None, beds_u = Some 2, bathrooms_u = None \<rparr>] \<rparr>]"
  using recordsToProperties_collects
     [of "[JObj [(''detailUrl'', JStr ''u1''), (''price'', JNum 2000)],
      JObj [(''price'', JNum 1800)],
      JObj [(''detailUrl'', JNum 5)],
      JObj [(''detailUrl'', JStr ''u4''), (''address'', JObj [(''street'', JStr ''1 Main St'')]),
         (''units'', JArr [JObj [(''price'', JNum 2100)], JObj [(''beds'', JNum 2)]])]]"]
    batch_eval
  by (simp add: List.map_filter_def)

end
